theory Spec2Isabelle
  imports Complex_Main "HOL-Library.Sublist" "HOL-Library.AList"
begin

section \<open>Credentials (cell In [4]) and the read request (cell In [5])\<close>

text \<open>Cells are named by their execution counts in the notebook, In [1] to In [5].\<close>

text \<open>
  Python exceptions that the modelled cells can raise.  \<open>KeyError\<close> carries the missing
  key, as Python's does; \<open>ClientError\<close> stands for whatever the secret-store client raises;
  \<open>ValueError\<close> is what the session constructor raises; \<open>NameError\<close> is the use of
  a variable that no cell has bound; \<open>Py4JJavaError\<close> is a failure of the connector or
  of the warehouse, passed on by \<open>load()\<close>.
\<close>

datatype py_error =
  KeyError string | ClientError string | ValueError string | NameError string |
  Py4JJavaError string

text \<open>
  The part of the secret store's answer that the notebook reads: the list under
  \<open>response['Parameters']\<close>, each element with its \<open>'Name'\<close> and \<open>'Value'\<close>.
\<close>

record ssm_response =
  Parameters :: "(string \<times> string) list"
  InvalidParameters :: "string list"

text \<open>
  \<open>boto3.client('ssm', region).get_parameters(Names=..., WithDecryption=...)\<close> is an
  external service: it is a parameter of the model, from the service name, the region,
  the requested names and the decryption flag to an exception or a response.
\<close>

type_synonym boto3_client = "string \<Rightarrow> string \<Rightarrow> string list \<Rightarrow> bool \<Rightarrow> py_error + ssm_response"

definition params :: "string list" where
  "params = [''/SNOWFLAKE/URL'', ''/SNOWFLAKE/ACCOUNT_ID'',
             ''/SNOWFLAKE/USER_ID'', ''/SNOWFLAKE/PASSWORD'',
             ''/SNOWFLAKE/DATABASE'', ''/SNOWFLAKE/SCHEMA'',
             ''/SNOWFLAKE/WAREHOUSE'', ''/SNOWFLAKE/BUCKET'',
             ''/SNOWFLAKE/PREFIX'']"

definition region :: string where
  "region = ''us-east-1''"

text \<open>
  The dictionary comprehension \<open>{k['Name']: k['Value'] for k in response['Parameters']}\<close>:
  the entries are stored from left to right, a later one replacing an earlier one of the
  same name.
\<close>

definition dict_comprehension :: "(string \<times> string) list \<Rightarrow> (string \<rightharpoonup> string)" where
  "dict_comprehension ks = fold (\<lambda>k d. d(fst k \<mapsto> snd k)) ks Map.empty"

definition get_credentials :: "boto3_client \<Rightarrow> string list \<Rightarrow> py_error + (string \<rightharpoonup> string)" where
  "get_credentials boto3 ps =
     (case boto3 ''ssm'' region ps True of
        Inl e \<Rightarrow> Inl e
      | Inr response \<Rightarrow> Inr (dict_comprehension (Parameters response)))"

text \<open>
  Subscription \<open>d[k]\<close> of a Python dict raises \<open>KeyError(k)\<close> on a missing key.
\<close>

definition subscript :: "(string \<rightharpoonup> string) \<Rightarrow> string \<Rightarrow> py_error + string" where
  "subscript d k = (case d k of None \<Rightarrow> Inl (KeyError k) | Some v \<Rightarrow> Inr v)"

text \<open>
  A dict display \<open>{key1: d[name1], key2: d[name2], ...}\<close> evaluates its entries in the
  order written and stops at the first subscription that raises.  The entries of the
  display are given as the list of pairs (key, name).
\<close>

fun dict_display :: "(string \<rightharpoonup> string) \<Rightarrow> (string \<times> string) list \<Rightarrow> py_error + (string \<times> string) list" where
  "dict_display d [] = Inr []"
| "dict_display d ((key, name) # entries) =
     (case subscript d name of
        Inl e \<Rightarrow> Inl e
      | Inr v \<Rightarrow> (case dict_display d entries of
                   Inl e \<Rightarrow> Inl e
                 | Inr rest \<Rightarrow> Inr ((key, v) # rest)))"

text \<open>The entries of the \<open>sfOptions\<close> display of cell In [5], in the order written.\<close>

definition sfOptions_entries :: "(string \<times> string) list" where
  "sfOptions_entries =
     [(''sfURL'', ''/SNOWFLAKE/URL''),
      (''sfAccount'', ''/SNOWFLAKE/ACCOUNT_ID''),
      (''sfUser'', ''/SNOWFLAKE/USER_ID''),
      (''sfPassword'', ''/SNOWFLAKE/PASSWORD''),
      (''sfDatabase'', ''/SNOWFLAKE/DATABASE''),
      (''sfSchema'', ''/SNOWFLAKE/SCHEMA''),
      (''sfWarehouse'', ''/SNOWFLAKE/WAREHOUSE'')]"

definition sfOptions :: "(string \<rightharpoonup> string) \<Rightarrow> py_error + (string \<times> string) list" where
  "sfOptions param_values = dict_display param_values sfOptions_entries"

definition SNOWFLAKE_SOURCE_NAME :: string where
  "SNOWFLAKE_SOURCE_NAME = ''net.snowflake.spark.snowflake''"

definition query :: string where
  "query =
     ''select (V:main.temp_max - 273.15) * 1.8000 + 32.00 as temp_max_far, '' @
     ''       (V:main.temp_min - 273.15) * 1.8000 + 32.00 as temp_min_far, '' @
     ''       cast(V:time as timestamp) time, '' @
     ''       V:city.coord.lat lat, '' @
     ''       V:city.coord.lon lon '' @
     ''from snowflake_sample_data.weather.weather_14_total limit 5000000''"

text \<open>
  The reader built by \<open>spark.read.format(...).options(**sfOptions).option("query", ...)\<close>:
  the format name and the options set so far.  Setting an option that is already there
  replaces its value.
\<close>

record DataFrameReader =
  source_format :: "string option"
  extraOptions :: "(string \<times> string) list"

definition spark_read :: DataFrameReader where
  "spark_read = \<lparr>source_format = None, extraOptions = []\<rparr>"

definition format_reader :: "string \<Rightarrow> DataFrameReader \<Rightarrow> DataFrameReader" where
  "format_reader s r = r\<lparr>source_format := Some s\<rparr>"

definition option_reader :: "string \<Rightarrow> string \<Rightarrow> DataFrameReader \<Rightarrow> DataFrameReader" where
  "option_reader k v r = r\<lparr>extraOptions := AList.update k v (extraOptions r)\<rparr>"

definition options_reader :: "(string \<times> string) list \<Rightarrow> DataFrameReader \<Rightarrow> DataFrameReader" where
  "options_reader kvs r = fold (\<lambda>(k, v). option_reader k v) kvs r"

text \<open>
  The reader on which cell In [5] calls \<open>load()\<close>.  Building \<open>sfOptions\<close> comes first, so its
  \<open>KeyError\<close> is raised before any reader exists.
\<close>

definition read_request :: "(string \<rightharpoonup> string) \<Rightarrow> py_error + DataFrameReader" where
  "read_request param_values =
     (case sfOptions param_values of
        Inl e \<Rightarrow> Inl e
      | Inr opts \<Rightarrow>
          Inr (option_reader ''query'' query
                 (options_reader opts (format_reader SNOWFLAKE_SOURCE_NAME spark_read))))"


section \<open>The query of cell In [5]\<close>

text \<open>
  The query reads five paths of the VARIANT column \<open>V\<close> of each row.  A path that is
  missing is SQL NULL, here \<open>None\<close>.  Decimal values are exact (the literals of the query
  are fixed-point numbers), so they are modelled as reals; \<open>V:time\<close> is a number of
  seconds since the epoch.
\<close>

record weather_v =
  main_temp_max :: "real option"
  main_temp_min :: "real option"
  v_time :: "int option"
  city_coord_lat :: "real option"
  city_coord_lon :: "real option"

datatype timestamp = Timestamp int

record result_row =
  temp_max_far :: "real option"
  temp_min_far :: "real option"
  time :: "timestamp option"
  lat :: "real option"
  lon :: "real option"

text \<open>The select expression \<open>(v - 273.15) * 1.8000 + 32.00\<close>, on a value that is not NULL.\<close>

definition temp_far :: "real \<Rightarrow> real" where
  "temp_far v = (v - 273.15) * 1.8000 + 32.00"

text \<open>The select list applied to one row; arithmetic and cast map NULL to NULL.\<close>

definition select_list :: "weather_v \<Rightarrow> result_row" where
  "select_list v =
     \<lparr>temp_max_far = map_option temp_far (main_temp_max v),
      temp_min_far = map_option temp_far (main_temp_min v),
      time = map_option Timestamp (v_time v),
      lat = city_coord_lat v,
      lon = city_coord_lon v\<rparr>"

section \<open>Driver installation (cell In [1])\<close>

text \<open>
  The directory \<open>SFC_DIR\<close> is modelled by its regular files: a list of (name, content)
  with \<open>test -e\<close>, reading, writing, \<open>rm name\<close> and \<open>rm PREFIX*\<close>.  The pattern
  \<open>PREFIX*\<close> matches the names that begin with \<open>PREFIX\<close> (no product name begins with a
  dot); when nothing matches, \<open>rm\<close> fails and its message is discarded.
\<close>

type_synonym directory = "(string \<times> string) list"

definition file_names :: "directory \<Rightarrow> string set" where
  "file_names d = fst ` set d"

definition exists_file :: "directory \<Rightarrow> string \<Rightarrow> bool" where
  "exists_file d name = (name \<in> fst ` set d)"

definition read_file :: "directory \<Rightarrow> string \<Rightarrow> string option" where
  "read_file d name = map_of d name"

definition write_file :: "string \<Rightarrow> string \<Rightarrow> directory \<Rightarrow> directory" where
  "write_file name body d = AList.update name body d"

definition rm_file :: "string \<Rightarrow> directory \<Rightarrow> directory" where
  "rm_file name d = filter (\<lambda>f. fst f \<noteq> name) d"

definition rm_glob :: "string \<Rightarrow> directory \<Rightarrow> directory" where
  "rm_glob pre d = filter (\<lambda>f. \<not> prefix pre (fst f)) d"

text \<open>
  The remote repository: the body served at a URL, or \<open>None\<close> when the request fails.
  The state of the cell is the directory and the URLs handed to \<open>wget\<close> so far.
\<close>

type_synonym web = "string \<rightharpoonup> string"

record shell =
  dir :: directory
  requests :: "string list"

text \<open>
  \<open>wget URL\<close> without options stores the body under the last path component of the URL
  (\<open>index.html\<close> when that is empty).  It does not overwrite: when the name is taken it
  stores under \<open>name.1\<close>, \<open>name.2\<close>, ... , the first that is free.  A directory of \<open>n\<close>
  files that holds \<open>name\<close> cannot hold all of \<open>name.1\<close> ... \<open>name.n\<close>, so \<open>n\<close> steps of
  search are enough.  A failed request writes nothing.
\<close>

definition url_file_name :: "string \<Rightarrow> string" where
  "url_file_name u =
     (let b = rev (takeWhile (\<lambda>c. c \<noteq> CHR ''/'') (rev u))
      in if b = [] then ''index.html'' else b)"

fun decimal :: "nat \<Rightarrow> string" where
  "decimal n =
     (if n < 10 then [''0123456789'' ! n]
      else decimal (n div 10) @ [''0123456789'' ! (n mod 10)])"

declare decimal.simps [simp del]

fun numbered_name :: "directory \<Rightarrow> string \<Rightarrow> nat \<Rightarrow> nat \<Rightarrow> string" where
  "numbered_name d name 0 k = name @ ''.'' @ decimal k"
| "numbered_name d name (Suc fuel) k =
     (if exists_file d (name @ ''.'' @ decimal k)
      then numbered_name d name fuel (Suc k)
      else name @ ''.'' @ decimal k)"

definition unique_name :: "directory \<Rightarrow> string \<Rightarrow> string" where
  "unique_name d name =
     (if exists_file d name then numbered_name d name (length d) 1 else name)"

definition wget :: "web \<Rightarrow> string \<Rightarrow> shell \<Rightarrow> shell" where
  "wget w u s =
     (case w u of
        None \<Rightarrow> s\<lparr>requests := requests s @ [u]\<rparr>
      | Some body \<Rightarrow>
          s\<lparr>dir := write_file (unique_name (dir s) (url_file_name u)) body (dir s),
            requests := requests s @ [u]\<rparr>)"

text \<open>
  The pipeline \<open>grep latest maven-metadata.xml | awk -F">" '{ print $2 }' | awk -F"<" '{ print $1 }'\<close>
  inside \<open>$( )\<close>: the lines of the file that contain \<open>latest\<close>; of each, the second
  field between \<open>>\<close> separators; of that, the first field before \<open><\<close>; the printed lines
  joined, with the trailing newlines removed by the command substitution.  A missing
  file gives no line at all.
\<close>

fun split_on :: "char \<Rightarrow> string \<Rightarrow> string list" where
  "split_on c [] = [[]]"
| "split_on c (x # xs) =
     (if x = c then [] # split_on c xs
      else (case split_on c xs of
              [] \<Rightarrow> [[x]]
            | f # fs \<Rightarrow> (x # f) # fs))"

definition lines_of :: "string \<Rightarrow> string list" where
  "lines_of s = (let ls = split_on (CHR 0x0A) s in if last ls = [] then butlast ls else ls)"

definition grep :: "string \<Rightarrow> string \<Rightarrow> string list" where
  "grep pat s = filter (sublist pat) (lines_of s)"

definition awk_print_2 :: "char \<Rightarrow> string \<Rightarrow> string" where
  "awk_print_2 fs l = (case split_on fs l of _ # f # _ \<Rightarrow> f | _ \<Rightarrow> [])"

definition awk_print_1 :: "char \<Rightarrow> string \<Rightarrow> string" where
  "awk_print_1 fs l = (case split_on fs l of f # _ \<Rightarrow> f | _ \<Rightarrow> [])"

definition command_substitution :: "string list \<Rightarrow> string" where
  "command_substitution ls =
     rev (dropWhile (\<lambda>c. c = CHR 0x0A) (rev (concat (map (\<lambda>l. l @ [CHR 0x0A]) ls))))"

definition parse_version :: "string \<Rightarrow> string" where
  "parse_version body =
     command_substitution
       (map (awk_print_1 (CHR ''<'')) (map (awk_print_2 (CHR ''>'')) (grep ''latest'' body)))"

definition VERSION_in :: "directory \<Rightarrow> string" where
  "VERSION_in d =
     (case read_file d ''maven-metadata.xml'' of
        None \<Rightarrow> []
      | Some body \<Rightarrow> parse_version body)"

definition PRODUCTS :: "string list" where
  "PRODUCTS = [''snowflake-jdbc'', ''spark-snowflake_2.11'']"

definition metadata_url :: "string \<Rightarrow> string" where
  "metadata_url PRODUCT =
     ''https://repo1.maven.org/maven2/net/snowflake/'' @ PRODUCT @ ''/maven-metadata.xml''"

definition DRIVER_of :: "string \<Rightarrow> string \<Rightarrow> string" where
  "DRIVER_of PRODUCT VERSION = PRODUCT @ ''-'' @ VERSION @ ''.jar''"

definition artifact_url :: "string \<Rightarrow> string \<Rightarrow> string" where
  "artifact_url PRODUCT VERSION =
     ''https://repo1.maven.org/maven2/net/snowflake/'' @ PRODUCT @ ''/'' @ VERSION @ ''/'' @
       DRIVER_of PRODUCT VERSION"

text \<open>One pass of the \<open>for PRODUCT in $PRODUCTS\<close> loop.\<close>

definition provision_product :: "web \<Rightarrow> string \<Rightarrow> shell \<Rightarrow> shell" where
  "provision_product w PRODUCT s =
     (let s1 = wget w (metadata_url PRODUCT) s;
          VERSION = VERSION_in (dir s1);
          DRIVER = DRIVER_of PRODUCT VERSION;
          s2 = (if \<not> exists_file (dir s1) DRIVER
                then wget w (artifact_url PRODUCT VERSION) (s1\<lparr>dir := rm_glob PRODUCT (dir s1)\<rparr>)
                else s1)
      in if exists_file (dir s2) ''maven-metadata.xml''
         then s2\<lparr>dir := rm_file ''maven-metadata.xml'' (dir s2)\<rparr>
         else s2)"

text \<open>
  The whole cell.  Its input is the directory as it is found, \<open>None\<close> when it does not
  exist yet: \<open>[ ! -d "$SFC_DIR" ] && mkdir $SFC_DIR\<close> then makes an empty one, and
  \<open>cd\<close> enters it.
\<close>

definition enter_directory :: "directory option \<Rightarrow> directory" where
  "enter_directory found = (case found of None \<Rightarrow> [] | Some d \<Rightarrow> d)"

definition provisioning :: "web \<Rightarrow> directory option \<Rightarrow> shell" where
  "provisioning w found =
     fold (provision_product w) PRODUCTS \<lparr>dir = enter_directory found, requests = []\<rparr>"


text \<open>
  The version that the repository publishes for a product, as the cell reads it from the
  fetched metadata (empty when the fetch fails); the version that one pass of the loop
  resolves in a given state; and the requests of a run that are not metadata fetches,
  that is, its artifact downloads.
\<close>

definition latest_version :: "web \<Rightarrow> string \<Rightarrow> string" where
  "latest_version w PRODUCT =
     (case w (metadata_url PRODUCT) of None \<Rightarrow> [] | Some body \<Rightarrow> parse_version body)"

definition resolved_VERSION :: "web \<Rightarrow> string \<Rightarrow> shell \<Rightarrow> string" where
  "resolved_VERSION w PRODUCT s = VERSION_in (dir (wget w (metadata_url PRODUCT) s))"

definition downloads :: "shell \<Rightarrow> string list" where
  "downloads s = filter (\<lambda>u. url_file_name u \<noteq> ''maven-metadata.xml'') (requests s)"

text \<open>Whether the artifact of the published version of a product is in a directory.\<close>

definition latest_present :: "web \<Rightarrow> directory \<Rightarrow> string \<Rightarrow> bool" where
  "latest_present w d PRODUCT =
     (case w (metadata_url PRODUCT) of
        None \<Rightarrow> False
      | Some body \<Rightarrow> exists_file d (DRIVER_of PRODUCT (parse_version body)))"

section \<open>The connector and the warehouse (\<open>load()\<close> in cell In [5])\<close>

text \<open>
  The warehouse reads the text of the query that the request carries.  The embedding
  covers statements of the form \<open>select ITEMS from TABLE\<close> and
  \<open>select ITEMS from TABLE limit N\<close>, written in lower case as the notebook writes
  them: the words of the text (separated by spaces), the number after \<open>limit\<close> read in
  decimal.
\<close>

definition sql_words :: "string \<Rightarrow> string list" where
  "sql_words q = filter (\<lambda>w. w \<noteq> []) (split_on (CHR '' '') q)"

definition digit_value :: "char \<Rightarrow> nat option" where
  "digit_value c =
     (if c = CHR ''0'' then Some 0 else if c = CHR ''1'' then Some 1
      else if c = CHR ''2'' then Some 2 else if c = CHR ''3'' then Some 3
      else if c = CHR ''4'' then Some 4 else if c = CHR ''5'' then Some 5
      else if c = CHR ''6'' then Some 6 else if c = CHR ''7'' then Some 7
      else if c = CHR ''8'' then Some 8 else if c = CHR ''9'' then Some 9
      else None)"

fun number_value :: "string \<Rightarrow> nat \<Rightarrow> nat option" where
  "number_value [] acc = Some acc"
| "number_value (c # cs) acc =
     (case digit_value c of None \<Rightarrow> None | Some d \<Rightarrow> number_value cs (10 * acc + d))"

definition sql_number :: "string \<Rightarrow> nat option" where
  "sql_number w = (if w = [] then None else number_value w 0)"

record statement =
  select_items :: "string list"
  from_table :: string
  limit_rows :: "nat option"

definition parse_statement :: "string \<Rightarrow> statement option" where
  "parse_statement q =
     (case sql_words q of
        [] \<Rightarrow> None
      | kw # rest \<Rightarrow>
          if kw \<noteq> ''select'' then None
          else (case dropWhile (\<lambda>w. w \<noteq> ''from'') rest of
                  [f, tbl] \<Rightarrow>
                    Some \<lparr>select_items = takeWhile (\<lambda>w. w \<noteq> ''from'') rest,
                          from_table = tbl, limit_rows = None\<rparr>
                | [f, tbl, l, n] \<Rightarrow>
                    (if l \<noteq> ''limit'' then None
                     else (case sql_number n of
                             None \<Rightarrow> None
                           | Some k \<Rightarrow>
                               Some \<lparr>select_items = takeWhile (\<lambda>w. w \<noteq> ''from'') rest,
                                     from_table = tbl, limit_rows = Some k\<rparr>))
                | _ \<Rightarrow> None))"

text \<open>
  The select list of the notebook's query, as the words between \<open>select\<close> and \<open>from\<close>;
  \<open>select_list\<close> is what it computes from a row.  A statement with another select list
  is outside the embedding and is answered like a statement that does not compile.
\<close>

definition weather_select_items :: "string list" where
  "weather_select_items =
     [''(V:main.temp_max'', ''-'', ''273.15)'', ''*'', ''1.8000'', ''+'', ''32.00'', ''as'',
      ''temp_max_far,'',
      ''(V:main.temp_min'', ''-'', ''273.15)'', ''*'', ''1.8000'', ''+'', ''32.00'', ''as'',
      ''temp_min_far,'',
      ''cast(V:time'', ''as'', ''timestamp)'', ''time,'',
      ''V:city.coord.lat'', ''lat,'',
      ''V:city.coord.lon'', ''lon'']"

text \<open>
  Running a statement on the tables of the warehouse: the select list on each row of the
  table, in the order in which the warehouse produces them, cut after \<open>N\<close> rows when the
  statement has \<open>limit N\<close>.
\<close>

definition execute :: "(string \<rightharpoonup> weather_v list) \<Rightarrow> statement \<Rightarrow> py_error + result_row list" where
  "execute tbls st =
     (if select_items st \<noteq> weather_select_items
      then Inl (Py4JJavaError ''SQL compilation error'')
      else (case tbls (from_table st) of
              None \<Rightarrow> Inl (Py4JJavaError ''Object does not exist'')
            | Some rows \<Rightarrow>
                Inr (case limit_rows st of
                       None \<Rightarrow> map select_list rows
                     | Some n \<Rightarrow> take n (map select_list rows))))"

text \<open>
  The warehouse is outside the notebook: which connection options it accepts and what its
  tables hold are parameters.  \<open>load()\<close> on a reader: the format must name the Snowflake
  source, the request must carry a \<open>query\<close> option, the warehouse must accept the
  options, and the result is that of the statement that the \<open>query\<close> option holds.
\<close>

record warehouse =
  accepts :: "(string \<times> string) list \<Rightarrow> bool"
  tables :: "string \<rightharpoonup> weather_v list"

definition load :: "warehouse \<Rightarrow> DataFrameReader \<Rightarrow> py_error + result_row list" where
  "load wh reader =
     (if source_format reader \<noteq> Some SNOWFLAKE_SOURCE_NAME
      then Inl (Py4JJavaError ''Failed to find data source'')
      else (case map_of (extraOptions reader) ''query'' of
              None \<Rightarrow> Inl (Py4JJavaError ''A query or a table name is required'')
            | Some q \<Rightarrow>
                if \<not> accepts wh (extraOptions reader)
                then Inl (Py4JJavaError ''Incorrect username or password'')
                else (case parse_statement q of
                        None \<Rightarrow> Inl (Py4JJavaError ''SQL compilation error'')
                      | Some st \<Rightarrow> execute (tables wh) st)))"

text \<open>
  Cell In [5] after the credentials: the request is built (or \<open>KeyError\<close> is raised) and
  \<open>load()\<close> is called on it.
\<close>

definition data_import :: "warehouse \<Rightarrow> (string \<rightharpoonup> string) \<Rightarrow> py_error + result_row list" where
  "data_import wh param_values =
     (case read_request param_values of
        Inl e \<Rightarrow> Inl e
      | Inr reader \<Rightarrow> load wh reader)"

section \<open>Spark context (cells In [2] and In [3])\<close>

text \<open>
  The configuration built by \<open>SparkConf().set(...).setMaster('local').setAppName(...)\<close>.
  The two lists of jar paths come from outside the notebook (\<open>classpath_jars()\<close> and the
  output of \<open>ls -d /home/ec2-user/snowflake/*.jar\<close>) and are parameters.
\<close>

fun join :: "string \<Rightarrow> string list \<Rightarrow> string" where
  "join sep [] = []"
| "join sep [x] = x"
| "join sep (x # y # ys) = x @ sep @ join sep (y # ys)"

record SparkConf =
  settings :: "(string \<times> string) list"

definition conf :: "string list \<Rightarrow> string list \<Rightarrow> SparkConf" where
  "conf classpath_jars sfc_jars =
     \<lparr>settings =
        AList.update ''spark.app.name'' ''local-spark-test''
          (AList.update ''spark.master'' ''local''
             (AList.update ''spark.driver.extraClassPath''
                (join '':'' classpath_jars @ '':'' @ join '':'' sfc_jars) []))\<rparr>"

text \<open>
  The Python process behind the notebook: the contexts that are running in it (by the
  number under which they were made), how many were made so far, and the notebook
  variables \<open>sc\<close> and \<open>spark\<close> (the \<open>SQLContext\<close> that wraps \<open>sc\<close>, by the number of the
  context it wraps).
\<close>

record kernel =
  live :: "nat list"
  made :: nat
  sc :: "nat option"
  spark :: "nat option"

definition fresh_kernel :: kernel where
  "fresh_kernel = \<lparr>live = [], made = 0, sc = None, spark = None\<rparr>"

text \<open>
  \<open>SparkContext(conf=conf)\<close>: the constructor of the library refuses to start a context
  while another one is running in the process (the notebook's text tells the reader to
  stop the context before running the cell again); otherwise the new context runs.
  \<open>stop()\<close> ends the context it is called on.
\<close>

definition SparkContext :: "SparkConf \<Rightarrow> kernel \<Rightarrow> py_error + (nat \<times> kernel)" where
  "SparkContext c k =
     (if live k \<noteq> []
      then Inl (ValueError ''Cannot run multiple SparkContexts at once'')
      else Inr (made k, k\<lparr>live := made k # live k, made := Suc (made k)\<rparr>))"

definition stop :: "nat \<Rightarrow> kernel \<Rightarrow> kernel" where
  "stop h k = k\<lparr>live := removeAll h (live k)\<rparr>"

text \<open>
  What a reader of the notebook can do to the process: run the cell \<open>#sc.stop()\<close> as it
  is shipped (a comment), run it with the comment sign removed, run the cell that makes
  the context and binds \<open>sc\<close>, or restart the kernel.  A cell that raises leaves the
  process as it was before the statement that raised.
\<close>

datatype action = Stop_cell_as_shipped | Stop_cell_uncommented | Context_cell | Restart_kernel

fun run_cell :: "SparkConf \<Rightarrow> action \<Rightarrow> kernel \<Rightarrow> py_error + kernel" where
  "run_cell c Stop_cell_as_shipped k = Inr k"
| "run_cell c Stop_cell_uncommented k =
     (case sc k of None \<Rightarrow> Inl (NameError ''sc'') | Some h \<Rightarrow> Inr (stop h k))"
| "run_cell c Context_cell k =
     (case SparkContext c k of
        Inl e \<Rightarrow> Inl e
      | Inr (h, k') \<Rightarrow> Inr (k'\<lparr>sc := Some h, spark := Some h\<rparr>))"
| "run_cell c Restart_kernel k = Inr fresh_kernel"

fun run_cells :: "SparkConf \<Rightarrow> action list \<Rightarrow> kernel \<Rightarrow> kernel" where
  "run_cells c [] k = k"
| "run_cells c (a # as) k =
     (case run_cell c a k of Inl e \<Rightarrow> run_cells c as k | Inr k' \<Rightarrow> run_cells c as k')"


section \<open>Concrete stores and requests\<close>

text \<open>
  A parameter store that answers with the stored parameters among the requested names and
  lists the others as invalid, and two contents for it: one with all nine names of
  \<open>params\<close>, one without \<open>/SNOWFLAKE/BUCKET\<close>.
\<close>

definition parameter_store :: "(string \<times> string) list \<Rightarrow> boto3_client" where
  "parameter_store stored service reg names decrypt =
     Inr \<lparr>Parameters = filter (\<lambda>k. fst k \<in> set names) stored,
          InvalidParameters = filter (\<lambda>n. n \<notin> fst ` set stored) names\<rparr>"

definition full_store :: "(string \<times> string) list" where
  "full_store =
     [(''/SNOWFLAKE/URL'', ''acme.snowflakecomputing.com''),
      (''/SNOWFLAKE/ACCOUNT_ID'', ''acme''),
      (''/SNOWFLAKE/USER_ID'', ''analyst''),
      (''/SNOWFLAKE/PASSWORD'', ''secret''),
      (''/SNOWFLAKE/DATABASE'', ''snowflake_sample_data''),
      (''/SNOWFLAKE/SCHEMA'', ''weather''),
      (''/SNOWFLAKE/WAREHOUSE'', ''compute_wh''),
      (''/SNOWFLAKE/BUCKET'', ''acme-bucket''),
      (''/SNOWFLAKE/PREFIX'', ''weather/'')]"

definition store_without_bucket :: "(string \<times> string) list" where
  "store_without_bucket =
     [(''/SNOWFLAKE/URL'', ''acme.snowflakecomputing.com''),
      (''/SNOWFLAKE/ACCOUNT_ID'', ''acme''),
      (''/SNOWFLAKE/USER_ID'', ''analyst''),
      (''/SNOWFLAKE/PASSWORD'', ''secret''),
      (''/SNOWFLAKE/DATABASE'', ''snowflake_sample_data''),
      (''/SNOWFLAKE/SCHEMA'', ''weather''),
      (''/SNOWFLAKE/WAREHOUSE'', ''compute_wh''),
      (''/SNOWFLAKE/PREFIX'', ''weather/'')]"

definition example_reader :: DataFrameReader where
  "example_reader =
     \<lparr>source_format = Some ''net.snowflake.spark.snowflake'',
      extraOptions =
        [(''sfURL'', ''acme.snowflakecomputing.com''),
         (''sfAccount'', ''acme''),
         (''sfUser'', ''analyst''),
         (''sfPassword'', ''secret''),
         (''sfDatabase'', ''snowflake_sample_data''),
         (''sfSchema'', ''weather''),
         (''sfWarehouse'', ''compute_wh''),
         (''query'', query)]\<rparr>"


text \<open>
  A repository that publishes version 3.6.0 of the JDBC driver and 2.4.5 of the Spark
  connector with their jars, one that cannot be reached, and a directory that holds an
  older JDBC driver beside the latest one.
\<close>

definition metadata_xml :: "string \<Rightarrow> string" where
  "metadata_xml v =
     ''<metadata>'' @ [CHR 0x0A] @
     ''  <versioning>'' @ [CHR 0x0A] @
     ''    <latest>'' @ v @ ''</latest>'' @ [CHR 0x0A] @
     ''    <release>'' @ v @ ''</release>'' @ [CHR 0x0A] @
     ''  </versioning>'' @ [CHR 0x0A] @
     ''</metadata>'' @ [CHR 0x0A]"

definition maven_repo :: web where
  "maven_repo =
     [metadata_url ''snowflake-jdbc'' \<mapsto> metadata_xml ''3.6.0'',
      metadata_url ''spark-snowflake_2.11'' \<mapsto> metadata_xml ''2.4.5'',
      artifact_url ''snowflake-jdbc'' ''3.6.0'' \<mapsto> ''jdbc 3.6.0 jar'',
      artifact_url ''spark-snowflake_2.11'' ''2.4.5'' \<mapsto> ''spark 2.4.5 jar'']"

definition unreachable_repo :: web where
  "unreachable_repo = (\<lambda>u. None)"

definition stale_and_latest :: directory where
  "stale_and_latest =
     [(''snowflake-jdbc-3.5.0.jar'', ''jdbc 3.5.0 jar''),
      (''snowflake-jdbc-3.6.0.jar'', ''jdbc 3.6.0 jar''),
      (''spark-snowflake_2.11-2.4.5.jar'', ''spark 2.4.5 jar'')]"


text \<open>
  The conversion as the specification words it, \<open>f(v) = (v - 273.15) * 1.8 + 32\<close>, and
  the conversion of the temperature scales: a kelvin is a degree Celsius, 0 degrees
  Celsius is 273.15 K and 32 degrees Fahrenheit, and a degree Celsius is 9/5 of a degree
  Fahrenheit.
\<close>

definition f_spec :: "real \<Rightarrow> real" where
  "f_spec v = (v - 273.15) * 1.8 + 32"

definition fahrenheit_of_kelvin :: "real \<Rightarrow> real" where
  "fahrenheit_of_kelvin k = (k - 273.15) * 9 / 5 + 32"

text \<open>A table of three rows, the last one with missing paths.\<close>

definition three_rows :: "weather_v list" where
  "three_rows =
     [\<lparr>main_temp_max = Some 273.15, main_temp_min = Some 263.15, v_time = Some 1500000000,
       city_coord_lat = Some 52.52, city_coord_lon = Some 13.4\<rparr>,
      \<lparr>main_temp_max = Some 373.15, main_temp_min = Some 273.15, v_time = Some 1500003600,
       city_coord_lat = Some 40.71, city_coord_lon = Some (-74.01)\<rparr>,
      \<lparr>main_temp_max = None, main_temp_min = Some 300, v_time = None,
       city_coord_lat = None, city_coord_lon = Some 0\<rparr>]"

text \<open>
  A directory that holds the latest artifact of each product and nothing else, and the
  same directory with a \<open>maven-metadata.xml\<close> left in it that names an older JDBC driver.
\<close>

definition latest_only :: directory where
  "latest_only =
     [(''snowflake-jdbc-3.6.0.jar'', ''jdbc 3.6.0 jar''),
      (''spark-snowflake_2.11-2.4.5.jar'', ''spark 2.4.5 jar'')]"

definition leftover_metadata :: directory where
  "leftover_metadata =
     [(''maven-metadata.xml'', metadata_xml ''3.5.0''),
      (''snowflake-jdbc-3.6.0.jar'', ''jdbc 3.6.0 jar''),
      (''spark-snowflake_2.11-2.4.5.jar'', ''spark 2.4.5 jar'')]"

text \<open>
  A warehouse that accepts the password of the full store and holds the table of three
  rows under the name that the query uses.
\<close>

definition sample_warehouse :: warehouse where
  "sample_warehouse =
     \<lparr>accepts = (\<lambda>opts. map_of opts ''sfPassword'' = Some ''secret''),
      tables = [''snowflake_sample_data.weather.weather_14_total'' \<mapsto> three_rows]\<rparr>"

text \<open>
  A repository that publishes the two versions but serves no jar, and the state of a
  shell in a directory that holds only an older JDBC driver.
\<close>

definition repo_without_jars :: web where
  "repo_without_jars =
     [metadata_url ''snowflake-jdbc'' \<mapsto> metadata_xml ''3.6.0'',
      metadata_url ''spark-snowflake_2.11'' \<mapsto> metadata_xml ''2.4.5'']"

definition stale_only :: shell where
  "stale_only = \<lparr>dir = [(''snowflake-jdbc-3.5.0.jar'', ''jdbc 3.5.0 jar'')], requests = []\<rparr>"

section \<open>Credentials and read request: properties\<close>

lemma dom_fold_upd:
  "dom (fold (\<lambda>k d. d(fst k \<mapsto> snd k)) ks d0) = fst ` set ks \<union> dom d0"
  by (induction ks arbitrary: d0) auto

lemma dom_dict_comprehension: "dom (dict_comprehension ks) = fst ` set ks"
  by (simp add: dict_comprehension_def dom_fold_upd)

lemma dict_display_find:
  "dict_display d es =
     (case find (\<lambda>(key, name). d name = None) es of
        Some (key, name) \<Rightarrow> Inl (KeyError name)
      | None \<Rightarrow> Inr (map (\<lambda>(key, name). (key, the (d name))) es))"
  by (induction es) (auto simp: subscript_def split: option.splits sum.splits)

lemma dict_display_eq:
  "(\<forall>(k, n) \<in> set es. d n = d' n) \<Longrightarrow> dict_display d es = dict_display d' es"
  by (induction es) (auto simp: subscript_def split: option.splits sum.splits)

lemma sfOptions_Inr:
  "sfOptions pv = Inr opts \<Longrightarrow>
     opts = map (\<lambda>(key, name). (key, the (pv name))) sfOptions_entries \<and>
     (\<forall>(key, name) \<in> set sfOptions_entries. pv name \<noteq> None)"
  by (auto simp: sfOptions_def dict_display_find find_None_iff split: option.splits)


text \<open>
  Claim C1, as the code has it.  The mapping returned by \<open>get_credentials\<close> has as its
  keys the names that the response carries (an exception of the client is passed on);
  nothing compares them with the requested names.  Building \<open>sfOptions\<close> raises
  \<open>KeyError\<close> for the first of its seven names that the mapping lacks and otherwise
  yields the seven stored values: no empty value is ever put in place of a missing one,
  and \<open>/SNOWFLAKE/BUCKET\<close> and \<open>/SNOWFLAKE/PREFIX\<close> are not looked up.
\<close>

theorem credentials_keys_and_missing_names:
  "map_sum id dom (get_credentials boto3 ps) =
     map_sum id (\<lambda>response. fst ` set (Parameters response)) (boto3 ''ssm'' region ps True) \<and>
   sfOptions param_values =
     (case find (\<lambda>(key, name). param_values name = None) sfOptions_entries of
        Some (key, name) \<Rightarrow> Inl (KeyError name)
      | None \<Rightarrow> Inr (map (\<lambda>(key, name). (key, the (param_values name))) sfOptions_entries))"
proof
  show "map_sum id dom (get_credentials boto3 ps) =
     map_sum id (\<lambda>response. fst ` set (Parameters response)) (boto3 ''ssm'' region ps True)"
    by (cases "boto3 ''ssm'' region ps True")
      (simp_all add: get_credentials_def dom_dict_comprehension)
next
  show "sfOptions param_values =
     (case find (\<lambda>(key, name). param_values name = None) sfOptions_entries of
        Some (key, name) \<Rightarrow> Inl (KeyError name)
      | None \<Rightarrow> Inr (map (\<lambda>(key, name). (key, the (param_values name))) sfOptions_entries))"
    unfolding sfOptions_def by (rule dict_display_find)
qed


text \<open>
  Claim C1 as stated fails: for a store without \<open>/SNOWFLAKE/BUCKET\<close> the returned mapping
  lacks that requested name, and the lookups of cell In [5] all succeed, so no error is raised.
\<close>

theorem missing_bucket_counterexample:
  "get_credentials (parameter_store store_without_bucket) params =
     Inr (dict_comprehension store_without_bucket) \<and>
   ''/SNOWFLAKE/BUCKET'' \<in> set params \<and>
   dict_comprehension store_without_bucket ''/SNOWFLAKE/BUCKET'' = None \<and>
   sfOptions (dict_comprehension store_without_bucket) =
     Inr [(''sfURL'', ''acme.snowflakecomputing.com''),
          (''sfAccount'', ''acme''),
          (''sfUser'', ''analyst''),
          (''sfPassword'', ''secret''),
          (''sfDatabase'', ''snowflake_sample_data''),
          (''sfSchema'', ''weather''),
          (''sfWarehouse'', ''compute_wh'')]"
  by (simp add: get_credentials_def parameter_store_def store_without_bucket_def params_def
      dict_comprehension_def sfOptions_def sfOptions_entries_def subscript_def)


text \<open>
  Claim C8.  Whenever cell In [5] gets as far as the reader, the reader names the Snowflake
  source, its options are the seven \<open>sf...\<close> keys and \<open>query\<close> and no other, each
  \<open>sf...\<close> value is the value of its name in the credential mapping, and the \<open>query\<close>
  option is the query string.
\<close>

theorem read_request_options:
  assumes "read_request param_values = Inr reader"
  shows "source_format reader = Some SNOWFLAKE_SOURCE_NAME \<and>
         map fst (extraOptions reader) =
           [''sfURL'', ''sfAccount'', ''sfUser'', ''sfPassword'', ''sfDatabase'', ''sfSchema'',
            ''sfWarehouse'', ''query''] \<and>
         map_of (extraOptions reader) ''sfURL'' = param_values ''/SNOWFLAKE/URL'' \<and>
         map_of (extraOptions reader) ''sfAccount'' = param_values ''/SNOWFLAKE/ACCOUNT_ID'' \<and>
         map_of (extraOptions reader) ''sfUser'' = param_values ''/SNOWFLAKE/USER_ID'' \<and>
         map_of (extraOptions reader) ''sfPassword'' = param_values ''/SNOWFLAKE/PASSWORD'' \<and>
         map_of (extraOptions reader) ''sfDatabase'' = param_values ''/SNOWFLAKE/DATABASE'' \<and>
         map_of (extraOptions reader) ''sfSchema'' = param_values ''/SNOWFLAKE/SCHEMA'' \<and>
         map_of (extraOptions reader) ''sfWarehouse'' = param_values ''/SNOWFLAKE/WAREHOUSE'' \<and>
         map_of (extraOptions reader) ''query'' = Some query"
proof -
  from assms obtain opts where o: "sfOptions param_values = Inr opts"
    and r: "reader = option_reader ''query'' query
                 (options_reader opts (format_reader SNOWFLAKE_SOURCE_NAME spark_read))"
    by (auto simp: read_request_def split: sum.splits)
  from sfOptions_Inr[OF o] show ?thesis
    by (auto simp: r sfOptions_entries_def option_reader_def options_reader_def
        format_reader_def spark_read_def)
qed


text \<open>Claim C8 on the store that has all nine names.\<close>

theorem read_request_options_witness:
  "read_request (dict_comprehension full_store) = Inr example_reader \<and>
   map fst (extraOptions example_reader) =
     [''sfURL'', ''sfAccount'', ''sfUser'', ''sfPassword'', ''sfDatabase'', ''sfSchema'',
      ''sfWarehouse'', ''query''] \<and>
   map_of (extraOptions example_reader) ''sfPassword'' =
     dict_comprehension full_store ''/SNOWFLAKE/PASSWORD''"
proof -
  have h: "read_request (dict_comprehension full_store) = Inr example_reader"
    by (simp add: read_request_def sfOptions_def sfOptions_entries_def subscript_def
        dict_comprehension_def full_store_def example_reader_def option_reader_def
        options_reader_def format_reader_def spark_read_def SNOWFLAKE_SOURCE_NAME_def)
  show ?thesis
    using h read_request_options[OF h] by simp
qed


text \<open>
  Claim C9.  \<open>/SNOWFLAKE/BUCKET\<close> and \<open>/SNOWFLAKE/PREFIX\<close> are among the requested names,
  and two credential mappings that agree on every other name give the same \<open>sfOptions\<close>
  (or the same \<open>KeyError\<close>), the same reader and the same imported data.
\<close>

theorem bucket_and_prefix_not_read:
  assumes "\<forall>name. name \<noteq> ''/SNOWFLAKE/BUCKET'' \<and> name \<noteq> ''/SNOWFLAKE/PREFIX'' \<longrightarrow>
             param_values name = param_values' name"
  shows "''/SNOWFLAKE/BUCKET'' \<in> set params \<and> ''/SNOWFLAKE/PREFIX'' \<in> set params \<and>
         sfOptions param_values = sfOptions param_values' \<and>
         read_request param_values = read_request param_values' \<and>
         data_import wh param_values = data_import wh param_values'"
proof -
  have "\<forall>(k, n) \<in> set sfOptions_entries. param_values n = param_values' n"
    using assms by (simp add: sfOptions_entries_def)
  then have "sfOptions param_values = sfOptions param_values'"
    unfolding sfOptions_def by (rule dict_display_eq)
  then show ?thesis
    by (simp add: read_request_def data_import_def params_def)
qed


text \<open>Claim C9 on a mapping and its variant without the bucket and with another prefix.\<close>

theorem bucket_and_prefix_not_read_witness:
  "sfOptions (dict_comprehension full_store) =
     sfOptions ((dict_comprehension full_store)(''/SNOWFLAKE/BUCKET'' := None,
          ''/SNOWFLAKE/PREFIX'' \<mapsto> ''other'')) \<and>
   read_request (dict_comprehension full_store) =
     read_request ((dict_comprehension full_store)(''/SNOWFLAKE/BUCKET'' := None,
          ''/SNOWFLAKE/PREFIX'' \<mapsto> ''other''))"
proof -
  have h: "\<forall>name. name \<noteq> ''/SNOWFLAKE/BUCKET'' \<and> name \<noteq> ''/SNOWFLAKE/PREFIX'' \<longrightarrow>
      dict_comprehension full_store name =
      ((dict_comprehension full_store)(''/SNOWFLAKE/BUCKET'' := None,
          ''/SNOWFLAKE/PREFIX'' \<mapsto> ''other'')) name"
    by simp
  show ?thesis
    using bucket_and_prefix_not_read[OF h] by blast
qed



section \<open>Driver installation: the file operations and one pass of the loop\<close>

lemma exists_write_file: "exists_file (write_file n b d) m \<longleftrightarrow> m = n \<or> exists_file d m"
  by (auto simp: exists_file_def write_file_def dom_update)

lemma exists_rm_file: "exists_file (rm_file n d) m \<longleftrightarrow> m \<noteq> n \<and> exists_file d m"
  by (auto simp: exists_file_def rm_file_def)

lemma exists_rm_glob: "exists_file (rm_glob p d) m \<longleftrightarrow> \<not> prefix p m \<and> exists_file d m"
  by (auto simp: exists_file_def rm_glob_def)

lemma write_file_new: "\<not> exists_file d n \<Longrightarrow> write_file n b d = d @ [(n, b)]"
  by (induction d) (auto simp: exists_file_def write_file_def)

lemma rm_file_absent: "\<not> exists_file d n \<Longrightarrow> rm_file n d = d"
  by (induction d) (auto simp: exists_file_def rm_file_def)

lemma read_file_absent: "\<not> exists_file d n \<Longrightarrow> read_file d n = None"
  by (simp add: exists_file_def read_file_def map_of_eq_None_iff)

lemma read_file_append_new: "\<not> exists_file d n \<Longrightarrow> read_file (d @ [(n, b)]) n = Some b"
proof -
  assume "\<not> exists_file d n"
  then have "map_of d n = None"
    by (simp add: exists_file_def map_of_eq_None_iff)
  then show ?thesis
    by (simp add: read_file_def map_add_def)
qed

lemma exists_append: "exists_file (d @ e) m \<longleftrightarrow> exists_file d m \<or> exists_file e m"
  by (auto simp: exists_file_def)

lemma exists_single: "exists_file [(n, b)] m \<longleftrightarrow> m = n"
  by (auto simp: exists_file_def)

lemma unique_name_absent: "\<not> exists_file d n \<Longrightarrow> unique_name d n = n"
  by (simp add: unique_name_def)

lemma url_file_name_slash:
  "CHR ''/'' \<notin> set b \<Longrightarrow> b \<noteq> [] \<Longrightarrow> url_file_name (u @ ''/'' @ b) = b"
proof -
  assume b: "CHR ''/'' \<notin> set b" "b \<noteq> []"
  have "takeWhile (\<lambda>c. c \<noteq> CHR ''/'') (rev b @ CHR ''/'' # rev u) = rev b"
    using b(1) by (subst takeWhile_append2) auto
  then show ?thesis
    using b(2) by (simp add: url_file_name_def)
qed

lemma url_file_name_metadata: "url_file_name (metadata_url p) = ''maven-metadata.xml''"
  using url_file_name_slash[of "''maven-metadata.xml''" "''https://repo1.maven.org/maven2/net/snowflake/'' @ p"]
  by (simp add: metadata_url_def)

lemma url_file_name_artifact:
  "CHR ''/'' \<notin> set p \<Longrightarrow> CHR ''/'' \<notin> set v \<Longrightarrow> url_file_name (artifact_url p v) = DRIVER_of p v"
  using url_file_name_slash[of "DRIVER_of p v" "''https://repo1.maven.org/maven2/net/snowflake/'' @ p @ ''/'' @ v"]
  by (simp add: artifact_url_def DRIVER_of_def)

lemma last_DRIVER: "last (DRIVER_of p v) = CHR ''r''"
  by (simp add: DRIVER_of_def)

lemma DRIVER_not_metadata: "DRIVER_of p v \<noteq> ''maven-metadata.xml''"
proof
  assume "DRIVER_of p v = ''maven-metadata.xml''"
  then have "last (DRIVER_of p v) = last ''maven-metadata.xml''" by simp
  then show False by (simp add: last_DRIVER)
qed

lemma prefix_DRIVER: "prefix p (DRIVER_of p v)"
  by (simp add: DRIVER_of_def)

lemma digit_nth: "n < 10 \<Longrightarrow> ''0123456789'' ! n \<in> set ''0123456789''"
  by (rule nth_mem) simp

lemma decimal_last: "decimal k \<noteq> [] \<and> last (decimal k) \<in> set ''0123456789''"
proof (cases "k < 10")
  case True
  then show ?thesis using digit_nth[of k] by (subst (1 2) decimal.simps) (simp del: set_simps)
next
  case False
  then show ?thesis using digit_nth[of "k mod 10"] by (subst (1 2) decimal.simps) (simp del: set_simps)
qed


lemma rm_glob_append: "rm_glob p (d @ e) = rm_glob p d @ rm_glob p e"
  by (simp add: rm_glob_def)

lemma rm_glob_keep: "\<not> prefix p n \<Longrightarrow> rm_glob p [(n, b)] = [(n, b)]"
  by (simp add: rm_glob_def)

lemma rm_file_append: "rm_file n (d @ e) = rm_file n d @ rm_file n e"
  by (simp add: rm_file_def)

lemma rm_file_single: "rm_file n [(m, b)] = (if m = n then [] else [(m, b)])"
  by (simp add: rm_file_def)

lemma PRODUCTS_names:
  "p \<in> set PRODUCTS \<Longrightarrow> CHR ''/'' \<notin> set p \<and> \<not> prefix p ''maven-metadata.xml''"
  by (auto simp: PRODUCTS_def)

lemma wget_requests: "requests (wget w u s) = requests s @ [u]"
  by (simp add: wget_def split: option.splits)

lemma wget_dir_new:
  "\<not> exists_file (dir s) (url_file_name u) \<Longrightarrow>
   dir (wget w u s) = (case w u of None \<Rightarrow> dir s | Some body \<Rightarrow> dir s @ [(url_file_name u, body)])"
  by (simp add: wget_def unique_name_absent write_file_new split: option.splits)

lemma wget_metadata_dir:
  "\<not> exists_file (dir s) ''maven-metadata.xml'' \<Longrightarrow>
   dir (wget w (metadata_url p) s) =
     (case w (metadata_url p) of None \<Rightarrow> dir s | Some body \<Rightarrow> dir s @ [(''maven-metadata.xml'', body)])"
  by (simp add: wget_def url_file_name_metadata unique_name_absent write_file_new split: option.splits)

lemma VERSION_after_fetch:
  "\<not> exists_file (dir s) ''maven-metadata.xml'' \<Longrightarrow>
   VERSION_in (dir (wget w (metadata_url p) s)) = latest_version w p"
  by (simp add: wget_metadata_dir VERSION_in_def latest_version_def read_file_absent
      read_file_append_new split: option.splits)

lemma provision_product_present:
  assumes "\<not> exists_file (dir s) ''maven-metadata.xml''"
    and "exists_file (dir s) (DRIVER_of p (latest_version w p))"
  shows "provision_product w p s = s\<lparr>requests := requests s @ [metadata_url p]\<rparr>"
proof -
  let ?s1 = "wget w (metadata_url p) s"
  have v: "VERSION_in (dir ?s1) = latest_version w p"
    using assms(1) by (rule VERSION_after_fetch)
  have d1: "dir ?s1 = (case w (metadata_url p) of None \<Rightarrow> dir s | Some body \<Rightarrow> dir s @ [(''maven-metadata.xml'', body)])"
    using assms(1) by (rule wget_metadata_dir)
  have ex: "exists_file (dir ?s1) (DRIVER_of p (latest_version w p))"
    using assms(2) by (simp add: d1 exists_append split: option.splits)
  have r1: "requests ?s1 = requests s @ [metadata_url p]"
    by (rule wget_requests)
  show ?thesis
  proof (cases "w (metadata_url p)")
    case None
    then have "?s1 = s\<lparr>requests := requests s @ [metadata_url p]\<rparr>"
      by (simp add: wget_def)
    then show ?thesis
      using ex v assms(1) by (simp add: provision_product_def Let_def)
  next
    case (Some body)
    then have e: "exists_file (dir ?s1) ''maven-metadata.xml''"
      by (simp add: d1 exists_append exists_single)
    have "rm_file ''maven-metadata.xml'' (dir ?s1) = dir s"
      using assms(1) Some by (simp add: d1 rm_file_append rm_file_absent rm_file_single)
    then have "?s1\<lparr>dir := rm_file ''maven-metadata.xml'' (dir ?s1)\<rparr> = s\<lparr>requests := requests s @ [metadata_url p]\<rparr>"
      using r1 by (cases s, cases ?s1) (simp)
    then show ?thesis
      using ex v e by (simp add: provision_product_def Let_def)
  qed
qed


lemma provision_product_absent:
  assumes m: "\<not> exists_file (dir s) ''maven-metadata.xml''"
    and a: "\<not> exists_file (dir s) (DRIVER_of p (latest_version w p))"
    and p: "CHR ''/'' \<notin> set p" "\<not> prefix p ''maven-metadata.xml''"
    and v: "CHR ''/'' \<notin> set (latest_version w p)"
  shows "provision_product w p s =
           s\<lparr>dir := (case w (artifact_url p (latest_version w p)) of
                       None \<Rightarrow> rm_glob p (dir s)
                     | Some jar \<Rightarrow> rm_glob p (dir s) @ [(DRIVER_of p (latest_version w p), jar)]),
             requests := requests s @ [metadata_url p, artifact_url p (latest_version w p)]\<rparr>"
proof -
  define ver where "ver = latest_version w p"
  define D where "D = DRIVER_of p ver"
  define s1 where "s1 = wget w (metadata_url p) s"
  define sg where "sg = s1\<lparr>dir := rm_glob p (dir s1)\<rparr>"
  define s2 where "s2 = wget w (artifact_url p ver) sg"
  have version: "VERSION_in (dir s1) = ver"
    unfolding s1_def ver_def using m by (rule VERSION_after_fetch)
  have d1: "dir s1 = (case w (metadata_url p) of None \<Rightarrow> dir s
                      | Some body \<Rightarrow> dir s @ [(''maven-metadata.xml'', body)])"
    unfolding s1_def using m by (rule wget_metadata_dir)
  have nex: "\<not> exists_file (dir s1) D"
    using a DRIVER_not_metadata[of p ver]
    by (simp add: d1 D_def ver_def exists_append exists_single split: option.splits)
  have step: "provision_product w p s =
      (if exists_file (dir s2) ''maven-metadata.xml''
       then s2\<lparr>dir := rm_file ''maven-metadata.xml'' (dir s2)\<rparr> else s2)"
    using nex version
    by (simp add: provision_product_def Let_def s2_def sg_def s1_def D_def)
  have g: "dir sg = (case w (metadata_url p) of None \<Rightarrow> rm_glob p (dir s)
             | Some body \<Rightarrow> rm_glob p (dir s) @ [(''maven-metadata.xml'', body)])"
    using p(2) by (simp add: sg_def d1 rm_glob_append rm_glob_keep split: option.splits)
  have free: "\<not> exists_file (dir sg) D"
    by (simp add: sg_def D_def exists_rm_glob prefix_DRIVER)
  have name: "url_file_name (artifact_url p ver) = D"
    unfolding D_def ver_def using p(1) v by (rule url_file_name_artifact)
  have d2: "dir s2 = (case w (artifact_url p ver) of None \<Rightarrow> dir sg
             | Some jar \<Rightarrow> dir sg @ [(D, jar)])"
    unfolding s2_def using free by (subst wget_dir_new) (simp_all add: name split: option.splits)
  have r2: "requests s2 = requests s @ [metadata_url p, artifact_url p ver]"
    by (simp add: s2_def sg_def s1_def wget_requests)
  have mg: "\<not> exists_file (rm_glob p (dir s)) ''maven-metadata.xml''"
    using m by (simp add: exists_rm_glob)
  have Dm: "D \<noteq> ''maven-metadata.xml''"
    unfolding D_def by (rule DRIVER_not_metadata)
  have clean: "rm_file ''maven-metadata.xml'' (dir s2) =
      (case w (artifact_url p ver) of None \<Rightarrow> rm_glob p (dir s)
       | Some jar \<Rightarrow> rm_glob p (dir s) @ [(D, jar)])"
    using mg Dm
    by (simp add: d2 g rm_file_append rm_file_single rm_file_absent split: option.splits)
  have same: "\<not> exists_file (dir s2) ''maven-metadata.xml'' \<Longrightarrow>
      dir s2 = rm_file ''maven-metadata.xml'' (dir s2)"
    by (simp add: rm_file_absent)
  have "dir (provision_product w p s) = rm_file ''maven-metadata.xml'' (dir s2)"
    using same by (simp add: step)
  moreover have "requests (provision_product w p s) = requests s2"
    by (simp add: step)
  ultimately show ?thesis
    using clean r2 unfolding D_def ver_def
    by (cases "provision_product w p s", cases s) simp
qed

lemma provision_product_no_metadata_left:
  "\<not> exists_file (dir (provision_product w p s)) ''maven-metadata.xml''"
  by (simp add: provision_product_def Let_def exists_rm_file)



section \<open>The query: properties\<close>

text \<open>
  Claim C3.  The expression that the query applies to \<open>V:main.temp_max\<close> and
  \<open>V:main.temp_min\<close> is the function \<open>f\<close> of the specification, it converts kelvins to
  degrees Fahrenheit, and it takes 273.15 to 32 and 373.15 to 212.
\<close>

theorem temp_far_fixed_points:
  "temp_far 273.15 = 32.0 \<and> temp_far 373.15 = 212.0 \<and>
   temp_far v = f_spec v \<and> temp_far v = fahrenheit_of_kelvin v \<and>
   temp_max_far (select_list r) = map_option temp_far (main_temp_max r) \<and>
   temp_min_far (select_list r) = map_option temp_far (main_temp_min r) \<and>
   sublist ''(V:main.temp_max - 273.15) * 1.8000 + 32.00 as temp_max_far'' query \<and>
   sublist ''(V:main.temp_min - 273.15) * 1.8000 + 32.00 as temp_min_far'' query"
proof -
  have "sublist ''(V:main.temp_max - 273.15) * 1.8000 + 32.00 as temp_max_far'' query"
    by code_simp
  moreover have "sublist ''(V:main.temp_min - 273.15) * 1.8000 + 32.00 as temp_min_far'' query"
    by code_simp
  ultimately show ?thesis
    by (simp add: temp_far_def f_spec_def fahrenheit_of_kelvin_def select_list_def)
qed

lemma read_request_reader:
  assumes "read_request param_values = Inr reader"
  shows "source_format reader = Some SNOWFLAKE_SOURCE_NAME \<and>
         map_of (extraOptions reader) ''query'' = Some query"
proof -
  from assms obtain opts where o: "sfOptions param_values = Inr opts"
    and r: "reader = option_reader ''query'' query
                 (options_reader opts (format_reader SNOWFLAKE_SOURCE_NAME spark_read))"
    by (auto simp: read_request_def split: sum.splits)
  from sfOptions_Inr[OF o] show ?thesis
    by (auto simp: r sfOptions_entries_def option_reader_def options_reader_def
        format_reader_def spark_read_def)
qed

lemma parse_statement_query:
  "parse_statement query =
     Some \<lparr>select_items = weather_select_items,
           from_table = ''snowflake_sample_data.weather.weather_14_total'',
           limit_rows = Some 5000000\<rparr>"
proof -
  have w: "sql_words query =
      ''select'' # weather_select_items @
      [''from'', ''snowflake_sample_data.weather.weather_14_total'', ''limit'', ''5000000'']"
    by code_simp
  have n: "sql_number ''5000000'' = Some 5000000"
    by (simp add: sql_number_def digit_value_def)
  have f: "''from'' \<notin> set weather_select_items"
    by (simp add: weather_select_items_def)
  have d: "dropWhile (\<lambda>w. w \<noteq> ''from'') (weather_select_items @
      [''from'', ''snowflake_sample_data.weather.weather_14_total'', ''limit'', ''5000000'']) =
      [''from'', ''snowflake_sample_data.weather.weather_14_total'', ''limit'', ''5000000'']"
    using f by (subst dropWhile_append2) auto
  have t: "takeWhile (\<lambda>w. w \<noteq> ''from'') (weather_select_items @
      [''from'', ''snowflake_sample_data.weather.weather_14_total'', ''limit'', ''5000000'']) =
      weather_select_items"
    using f by (subst takeWhile_append2) auto
  show ?thesis
    by (simp add: parse_statement_def w d t n del: append.simps)
qed

text \<open>
  The bound on the rows is the one that the request carries: whatever the \<open>query\<close>
  option of the reader, a result has at most as many rows as its limit clause allows,
  and a reader without a \<open>query\<close> option has no result.
\<close>

lemma load_limit:
  assumes "load wh reader = Inr df"
  shows "\<exists>q st rows. map_of (extraOptions reader) ''query'' = Some q \<and>
           parse_statement q = Some st \<and> tables wh (from_table st) = Some rows \<and>
           df = (case limit_rows st of
                   None \<Rightarrow> map select_list rows
                 | Some n \<Rightarrow> take n (map select_list rows))"
  using assms
  by (auto simp: load_def execute_def split: if_splits option.splits)

lemma load_without_query:
  "map_of (extraOptions reader) ''query'' = None \<Longrightarrow> \<exists>e. load wh reader = Inl e"
  by (simp add: load_def)

text \<open>
  Claim C6.  The query string ends with \<open>limit 5000000\<close>.  Whenever cell In [5]
  produces a result, the reader that \<open>load()\<close> was called on carries that query, and the
  result is the select list on the rows of the table \<open>weather_14_total\<close> of the
  warehouse, cut after 5000000 rows: it has as many rows as the table, but at most
  5000000.
\<close>

theorem result_rows_within_limit:
  assumes "data_import wh param_values = Inr df"
  shows "suffix ''limit 5000000'' query \<and> length df \<le> 5000000 \<and>
         (\<exists>reader rows.
            read_request param_values = Inr reader \<and>
            map_of (extraOptions reader) ''query'' = Some query \<and>
            tables wh ''snowflake_sample_data.weather.weather_14_total'' = Some rows \<and>
            df = take 5000000 (map select_list rows) \<and>
            length df = min 5000000 (length rows))"
proof -
  have s: "suffix ''limit 5000000'' query"
    by code_simp
  from assms obtain reader where r: "read_request param_values = Inr reader"
    and l: "load wh reader = Inr df"
    by (auto simp: data_import_def split: sum.splits)
  have q: "map_of (extraOptions reader) ''query'' = Some query"
    using read_request_reader[OF r] by simp
  from load_limit[OF l] q obtain st rows where
    "parse_statement query = Some st" "tables wh (from_table st) = Some rows"
    "df = (case limit_rows st of None \<Rightarrow> map select_list rows
           | Some n \<Rightarrow> take n (map select_list rows))"
    by auto
  then have t: "tables wh ''snowflake_sample_data.weather.weather_14_total'' = Some rows"
    and d: "df = take 5000000 (map select_list rows)"
    by (auto simp: parse_statement_query)
  have "length df = min 5000000 (length rows)"
    by (simp add: d min_def)
  then show ?thesis
    using s r q t d by auto
qed

text \<open>
  Claim C6 on the warehouse with the table of three rows and the full store: all three
  rows are in the result.
\<close>

theorem result_rows_within_limit_witness:
  "data_import sample_warehouse (dict_comprehension full_store) = Inr (map select_list three_rows) \<and>
   length (map select_list three_rows) \<le> 5000000"
proof -
  have r: "read_request (dict_comprehension full_store) = Inr example_reader"
    by (simp add: read_request_def sfOptions_def sfOptions_entries_def subscript_def
        dict_comprehension_def full_store_def example_reader_def option_reader_def
        options_reader_def format_reader_def spark_read_def SNOWFLAKE_SOURCE_NAME_def)
  have t: "take 5000000 (map select_list three_rows) = map select_list three_rows"
    by (simp add: three_rows_def)
  have h: "data_import sample_warehouse (dict_comprehension full_store) =
             Inr (map select_list three_rows)"
    by (simp add: data_import_def r load_def example_reader_def SNOWFLAKE_SOURCE_NAME_def
        sample_warehouse_def parse_statement_query execute_def t)
  show ?thesis
    using result_rows_within_limit[OF h] h by simp
qed

section \<open>Spark context: properties\<close>

text \<open>
  In every state that running cells can reach, either no context is running or exactly
  one is, and \<open>sc\<close> is bound to it.
\<close>

lemma run_cell_invariant:
  assumes "live k = [] \<or> (\<exists>h. live k = [h] \<and> sc k = Some h)"
    and "run_cell c a k = Inr k'"
  shows "live k' = [] \<or> (\<exists>h. live k' = [h] \<and> sc k' = Some h)"
  using assms
  by (cases a) (auto simp: SparkContext_def stop_def fresh_kernel_def split: option.splits if_splits)

lemma run_cells_invariant:
  "live k = [] \<or> (\<exists>h. live k = [h] \<and> sc k = Some h) \<Longrightarrow>
   live (run_cells c as k) = [] \<or>
     (\<exists>h. live (run_cells c as k) = [h] \<and> sc (run_cells c as k) = Some h)"
proof (induction as arbitrary: k)
  case Nil
  then show ?case by simp
next
  case (Cons a as)
  show ?case
  proof (cases "run_cell c a k")
    case (Inl e)
    then show ?thesis using Cons by simp
  next
    case (Inr k')
    then have "live k' = [] \<or> (\<exists>h. live k' = [h] \<and> sc k' = Some h)"
      using Cons.prems run_cell_invariant by blast
    then show ?thesis using Cons.IH[of k'] Inr by simp
  qed
qed

text \<open>
  Claim C7.  At every point of every sequence of cell runs that starts in a fresh
  process at most one context is running.  While one is running, the cell that makes
  the context raises \<open>ValueError\<close> and changes nothing, also after the cell
  \<open>#sc.stop()\<close> as it is shipped; after that cell with the comment sign removed no
  context is running, and the cell then makes a new one, the only one running.
\<close>

theorem one_live_context:
  assumes "k = run_cells c as fresh_kernel"
  shows "length (live k) \<le> 1 \<and>
         (live k \<noteq> [] \<longrightarrow>
            length (live k) = 1 \<and>
            run_cell c Context_cell k = Inl (ValueError ''Cannot run multiple SparkContexts at once'') \<and>
            run_cells c [Context_cell] k = k \<and>
            run_cells c [Stop_cell_as_shipped, Context_cell] k = k \<and>
            live (run_cells c [Stop_cell_uncommented] k) = [] \<and>
            live (run_cells c [Stop_cell_uncommented, Context_cell] k) = [made k])"
proof -
  have "live k = [] \<or> (\<exists>h. live k = [h] \<and> sc k = Some h)"
    unfolding assms by (rule run_cells_invariant) (simp add: fresh_kernel_def)
  then show ?thesis
    by (auto simp: SparkContext_def stop_def)
qed

text \<open>
Claim C7 after one run of the context cell in a fresh process.
\<close>

theorem one_live_context_witness:
  "live (run_cells (conf [] []) [Context_cell] fresh_kernel) = [0] \<and>
   run_cells (conf [] []) [Context_cell, Context_cell] fresh_kernel =
     run_cells (conf [] []) [Context_cell] fresh_kernel \<and>
   live (run_cells (conf [] []) [Context_cell, Stop_cell_uncommented, Context_cell] fresh_kernel) = [1]"
proof -
  have l: "live (run_cells (conf [] []) [Context_cell] fresh_kernel) \<noteq> []"
    by (simp add: SparkContext_def fresh_kernel_def)
  show ?thesis
    using one_live_context[OF refl, of "conf [] []" "[Context_cell]"] l
    by (simp add: SparkContext_def fresh_kernel_def stop_def)
qed

section \<open>Driver installation: properties of the cell\<close>

lemma provisioning_unfold:
  "provisioning w found =
     provision_product w ''spark-snowflake_2.11''
       (provision_product w ''snowflake-jdbc'' \<lparr>dir = enter_directory found, requests = []\<rparr>)"
  by (simp add: provisioning_def PRODUCTS_def)

lemma provisioning_no_metadata_left:
  "\<not> exists_file (dir (provisioning w found)) ''maven-metadata.xml''"
  unfolding provisioning_unfold by (rule provision_product_no_metadata_left)

lemma latest_present_iff:
  "latest_present w d p \<longleftrightarrow>
     w (metadata_url p) \<noteq> None \<and> exists_file d (DRIVER_of p (latest_version w p))"
  by (simp add: latest_present_def latest_version_def split: option.splits)

text \<open>
  The requests that \<open>downloads\<close> keeps are the artifact requests: no artifact URL ends
  in the name of the metadata file, and every metadata URL does.
\<close>

lemma url_file_name_last:
  assumes "u \<noteq> []" and "last u \<noteq> CHR ''/''"
  shows "last (url_file_name u) = last u"
proof -
  obtain c r where r: "rev u = c # r"
    using assms(1) by (cases "rev u") auto
  then have c: "c = last u"
    by (metis last_rev list.sel(1) rev_rev_ident hd_rev rev_is_Nil_conv assms(1))
  have "takeWhile (\<lambda>c. c \<noteq> CHR ''/'') (rev u) = c # takeWhile (\<lambda>c. c \<noteq> CHR ''/'') r"
    using assms(2) c by (simp add: r)
  then show ?thesis
    using c by (simp add: url_file_name_def)
qed

lemma url_file_name_artifact_not_metadata:
  "url_file_name (artifact_url p v) \<noteq> ''maven-metadata.xml''"
proof
  assume "url_file_name (artifact_url p v) = ''maven-metadata.xml''"
  then have "last (url_file_name (artifact_url p v)) = CHR ''l''"
    by simp
  moreover have "last (url_file_name (artifact_url p v)) = CHR ''r''"
    by (subst url_file_name_last) (simp_all add: artifact_url_def DRIVER_of_def)
  ultimately show False by simp
qed

lemma downloads_wget_artifact:
  "downloads (wget w (artifact_url p v) s) = downloads s @ [artifact_url p v]"
  by (simp add: downloads_def wget_requests url_file_name_artifact_not_metadata)

lemma downloads_wget_metadata:
  "downloads (wget w (metadata_url p) s) = downloads s"
  by (simp add: downloads_def wget_requests url_file_name_metadata)

lemma downloads_metadata_only:
  "requests s = map metadata_url ps \<Longrightarrow> downloads s = []"
  by (simp add: downloads_def url_file_name_metadata filter_empty_conv)

text \<open>
  Claim C5, as the code has it.  Take a directory that holds no \<open>maven-metadata.xml\<close>
  (every completed run of the cell leaves such a directory, see
  \<open>provisioning_no_metadata_left\<close>) and a repository whose metadata for each product is
  fetched and names a version whose artifact is in the directory.  Running the cell
  makes exactly two requests, the metadata fetches of the two products, so it downloads
  no artifact, and it leaves the directory as it was.
\<close>

theorem rerun_fetches_metadata_only:
  assumes "\<not> exists_file d ''maven-metadata.xml''"
    and "\<forall>p\<in>set PRODUCTS. latest_present w d p"
  shows "requests (provisioning w (Some d)) = map metadata_url PRODUCTS \<and>
         downloads (provisioning w (Some d)) = [] \<and>
         dir (provisioning w (Some d)) = d"
proof -
  let ?s0 = "\<lparr>dir = enter_directory (Some d), requests = []\<rparr>"
  let ?s1 = "?s0\<lparr>requests := requests ?s0 @ [metadata_url ''snowflake-jdbc'']\<rparr>"
  note m = assms(1)
  have p1: "exists_file d (DRIVER_of ''snowflake-jdbc'' (latest_version w ''snowflake-jdbc''))"
    and p2: "exists_file d (DRIVER_of ''spark-snowflake_2.11'' (latest_version w ''spark-snowflake_2.11''))"
    using assms(2) by (simp_all add: PRODUCTS_def latest_present_iff)
  have 1: "provision_product w ''snowflake-jdbc'' ?s0 = ?s1"
    using m p1 by (intro provision_product_present) (simp_all add: enter_directory_def)
  have 2: "provision_product w ''spark-snowflake_2.11'' ?s1 =
             ?s1\<lparr>requests := requests ?s1 @ [metadata_url ''spark-snowflake_2.11'']\<rparr>"
    using m p2 by (intro provision_product_present) (simp_all add: enter_directory_def)
  have r: "provisioning w (Some d) =
      \<lparr>dir = d, requests = map metadata_url PRODUCTS\<rparr>"
    unfolding provisioning_unfold 1 2 by (simp add: enter_directory_def PRODUCTS_def)
  have "downloads (provisioning w (Some d)) = []"
    by (rule downloads_metadata_only[of _ PRODUCTS]) (simp add: r)
  then show ?thesis
    by (simp add: r)
qed

text \<open>
  Claim C5, as the code has it, on the example repository: the first run in a new
  directory downloads both jars and leaves no metadata file, the second run makes the
  two metadata requests only.
\<close>

theorem rerun_fetches_metadata_only_witness:
  "downloads (provisioning maven_repo None) =
     [artifact_url ''snowflake-jdbc'' ''3.6.0'', artifact_url ''spark-snowflake_2.11'' ''2.4.5''] \<and>
   dir (provisioning maven_repo None) = latest_only \<and>
   requests (provisioning maven_repo (Some latest_only)) =
     [metadata_url ''snowflake-jdbc'', metadata_url ''spark-snowflake_2.11''] \<and>
   downloads (provisioning maven_repo (Some latest_only)) = [] \<and>
   dir (provisioning maven_repo (Some latest_only)) = latest_only"
proof -
  have d: "dir (provisioning maven_repo None) = latest_only"
    by code_simp
  have f: "downloads (provisioning maven_repo None) =
     [artifact_url ''snowflake-jdbc'' ''3.6.0'', artifact_url ''spark-snowflake_2.11'' ''2.4.5'']"
    by code_simp
  have m: "\<not> exists_file latest_only ''maven-metadata.xml''"
    by code_simp
  have h: "\<forall>p\<in>set PRODUCTS. latest_present maven_repo latest_only p"
    by code_simp
  show ?thesis
    using rerun_fetches_metadata_only[OF m h] d f by (simp add: PRODUCTS_def)
qed

text \<open>
  Claim C5 as stated fails in three ways.  In a directory with the latest artifact of
  each product, a run still makes two network requests, for the metadata of the two
  products.  With a \<open>maven-metadata.xml\<close> left in that directory, \<open>wget\<close> stores the new
  metadata as \<open>maven-metadata.xml.1\<close>, the old file names 3.5.0, and the run deletes
  the JDBC driver 3.6.0 and requests the jar of 3.5.0.  With a repository that cannot be
  reached, the run deletes both artifacts and requests two jars of the empty version.
\<close>

theorem rerun_requests_counterexample:
  "latest_present maven_repo latest_only ''snowflake-jdbc'' \<and>
   latest_present maven_repo latest_only ''spark-snowflake_2.11'' \<and>
   requests (provisioning maven_repo (Some latest_only)) =
     [metadata_url ''snowflake-jdbc'', metadata_url ''spark-snowflake_2.11''] \<and>
   latest_present maven_repo leftover_metadata ''snowflake-jdbc'' \<and>
   latest_present maven_repo leftover_metadata ''spark-snowflake_2.11'' \<and>
   requests (provisioning maven_repo (Some leftover_metadata)) =
     [metadata_url ''snowflake-jdbc'', artifact_url ''snowflake-jdbc'' ''3.5.0'',
      metadata_url ''spark-snowflake_2.11''] \<and>
   map fst (dir (provisioning maven_repo (Some leftover_metadata))) =
     [''spark-snowflake_2.11-2.4.5.jar'', ''maven-metadata.xml.1''] \<and>
   requests (provisioning unreachable_repo (Some latest_only)) =
     [metadata_url ''snowflake-jdbc'', artifact_url ''snowflake-jdbc'' [],
      metadata_url ''spark-snowflake_2.11'', artifact_url ''spark-snowflake_2.11'' []] \<and>
   dir (provisioning unreachable_repo (Some latest_only)) = []"
  by code_simp

lemma numbered_name_last: "last (numbered_name d n f k) \<in> set ''0123456789''"
  using decimal_last[of k] decimal_last[of "k"]
  by (induction f arbitrary: k) (simp_all add: decimal_last del: set_simps)

lemma unique_name_not_DRIVER: "unique_name d ''maven-metadata.xml'' \<noteq> DRIVER_of p v"
proof
  assume e: "unique_name d ''maven-metadata.xml'' = DRIVER_of p v"
  show False
  proof (cases "exists_file d ''maven-metadata.xml''")
    case True
    then have "last (DRIVER_of p v) \<in> set ''0123456789''"
      using e numbered_name_last[of d "''maven-metadata.xml''" "length d" 1]
      by (simp add: unique_name_def del: set_simps)
    then show False by (simp add: last_DRIVER)
  next
    case False
    then show False using e DRIVER_not_metadata[of p v] by (simp add: unique_name_def)
  qed
qed

lemma wget_metadata_exists_DRIVER:
  "exists_file (dir (wget w (metadata_url q) s)) (DRIVER_of p v) \<longleftrightarrow> exists_file (dir s) (DRIVER_of p v)"
  using unique_name_not_DRIVER[of "dir s" p v]
  by (auto simp: wget_def exists_write_file url_file_name_metadata split: option.splits)

lemma file_names_rm_glob: "file_names (rm_glob p d) = {n \<in> file_names d. \<not> prefix p n}"
  by (auto simp: file_names_def rm_glob_def)

lemma file_names_rm_file: "file_names (rm_file m d) = file_names d - {m}"
  by (auto simp: file_names_def rm_file_def)

text \<open>
  Claim C10.  In any state, when the artifact of the version that the pass resolves is
  not in the directory and its download fails, the pass has requested the metadata and
  then the artifact, and no file whose name begins with the product name is left: the
  stale artifacts were deleted before the download and are not restored.  (Without a
  leftover \<open>maven-metadata.xml\<close> the resolved version is the published one, see
  \<open>VERSION_after_fetch\<close>.)
\<close>

theorem failed_download_leaves_no_artifact:
  assumes "\<not> exists_file (dir s) (DRIVER_of p (resolved_VERSION w p s))"
    and "w (artifact_url p (resolved_VERSION w p s)) = None"
  shows "requests (provision_product w p s) =
           requests s @ [metadata_url p, artifact_url p (resolved_VERSION w p s)] \<and>
         {n \<in> file_names (dir (provision_product w p s)). prefix p n} = {}"
proof -
  define s1 where "s1 = wget w (metadata_url p) s"
  define v where "v = VERSION_in (dir s1)"
  define s2 where "s2 = wget w (artifact_url p v) (s1\<lparr>dir := rm_glob p (dir s1)\<rparr>)"
  have v: "resolved_VERSION w p s = v"
    by (simp add: resolved_VERSION_def v_def s1_def)
  have nex: "\<not> exists_file (dir s1) (DRIVER_of p v)"
    using assms(1) unfolding v s1_def by (simp add: wget_metadata_exists_DRIVER)
  have step: "provision_product w p s =
      (if exists_file (dir s2) ''maven-metadata.xml''
       then s2\<lparr>dir := rm_file ''maven-metadata.xml'' (dir s2)\<rparr> else s2)"
    using nex by (simp add: provision_product_def Let_def s2_def v_def s1_def)
  have d2: "dir s2 = rm_glob p (dir s1)"
    using assms(2) unfolding v by (simp add: s2_def wget_def)
  have r2: "requests s2 = requests s @ [metadata_url p, artifact_url p v]"
    by (simp add: s2_def s1_def wget_requests)
  have "file_names (dir (provision_product w p s)) \<subseteq> file_names (rm_glob p (dir s1))"
    by (auto simp: step d2 file_names_rm_file)
  then have "{n \<in> file_names (dir (provision_product w p s)). prefix p n} = {}"
    by (auto simp: file_names_rm_glob)
  moreover have "requests (provision_product w p s) = requests s2"
    by (simp add: step)
  ultimately show ?thesis
    by (simp add: r2 v)
qed

text \<open>
  Claim C10 where the directory holds an older JDBC driver and the repository publishes
  3.6.0 but does not serve its jar.
\<close>

theorem failed_download_leaves_no_artifact_witness:
  "requests (provision_product repo_without_jars ''snowflake-jdbc'' stale_only) =
     [metadata_url ''snowflake-jdbc'', artifact_url ''snowflake-jdbc'' ''3.6.0''] \<and>
   {n \<in> file_names (dir (provision_product repo_without_jars ''snowflake-jdbc'' stale_only)).
      prefix ''snowflake-jdbc'' n} = {} \<and>
   file_names (dir stale_only) = {''snowflake-jdbc-3.5.0.jar''}"
proof -
  have v: "resolved_VERSION repo_without_jars ''snowflake-jdbc'' stale_only = ''3.6.0''"
    by code_simp
  have a: "\<not> exists_file (dir stale_only)
     (DRIVER_of ''snowflake-jdbc'' (resolved_VERSION repo_without_jars ''snowflake-jdbc'' stale_only))"
    unfolding v by code_simp
  have b: "repo_without_jars
     (artifact_url ''snowflake-jdbc'' (resolved_VERSION repo_without_jars ''snowflake-jdbc'' stale_only)) = None"
    unfolding v by code_simp
  have c: "file_names (dir stale_only) = {''snowflake-jdbc-3.5.0.jar''}"
    by (simp add: stale_only_def file_names_def)
  have r: "requests stale_only = []"
    by (simp add: stale_only_def)
  show ?thesis
    using failed_download_leaves_no_artifact[OF a b] c by (simp add: v r)
qed


lemma parse_version_no_latest: "grep ''latest'' body = [] \<Longrightarrow> parse_version body = []"
  by (simp add: parse_version_def command_substitution_def)

text \<open>
  Claim C2, as the code has it.  For a product of the list and a directory without a
  leftover \<open>maven-metadata.xml\<close>: when the metadata cannot be fetched, or has no line
  that contains \<open>latest\<close>, the resolved version is empty, and the pass goes on as for
  any version.  Only if a file \<open>PRODUCT-.jar\<close> exists is nothing downloaded and the
  directory unchanged; otherwise every file whose name begins with the product name is
  deleted and \<open>PRODUCT-.jar\<close> is requested from the repository.
\<close>

theorem metadata_failure_empty_version:
  assumes "p \<in> set PRODUCTS"
    and "\<not> exists_file (dir s) ''maven-metadata.xml''"
    and "w (metadata_url p) = None \<or>
         (\<exists>body. w (metadata_url p) = Some body \<and> grep ''latest'' body = [])"
  shows "resolved_VERSION w p s = [] \<and>
         provision_product w p s =
           (if exists_file (dir s) (DRIVER_of p [])
            then s\<lparr>requests := requests s @ [metadata_url p]\<rparr>
            else s\<lparr>dir := (case w (artifact_url p []) of
                              None \<Rightarrow> rm_glob p (dir s)
                            | Some jar \<Rightarrow> rm_glob p (dir s) @ [(DRIVER_of p [], jar)]),
                   requests := requests s @ [metadata_url p, artifact_url p []]\<rparr>)"
proof -
  have l: "latest_version w p = []"
    using assms(3) by (auto simp: latest_version_def parse_version_no_latest)
  have v: "resolved_VERSION w p s = []"
    using assms(2) l by (simp add: resolved_VERSION_def VERSION_after_fetch)
  show ?thesis
  proof (cases "exists_file (dir s) (DRIVER_of p [])")
    case True
    then show ?thesis
      using provision_product_present[of s p w] assms(2) l v by simp
  next
    case False
    then show ?thesis
      using provision_product_absent[of s p w] PRODUCTS_names[OF assms(1)] assms(2) l v
      by (simp cong: option.case_cong)
  qed
qed

text \<open>
  Claim C2, as the code has it, for the JDBC driver, a repository that cannot be reached
  and a directory with an older driver.
\<close>

theorem metadata_failure_empty_version_witness:
  "resolved_VERSION unreachable_repo ''snowflake-jdbc'' stale_only = [] \<and>
   provision_product unreachable_repo ''snowflake-jdbc'' stale_only =
     \<lparr>dir = [],
      requests = [metadata_url ''snowflake-jdbc'', artifact_url ''snowflake-jdbc'' []]\<rparr>"
proof -
  have p: "''snowflake-jdbc'' \<in> set PRODUCTS"
    by (simp add: PRODUCTS_def)
  have m: "\<not> exists_file (dir stale_only) ''maven-metadata.xml''"
    by (simp add: stale_only_def exists_file_def)
  have f: "unreachable_repo (metadata_url ''snowflake-jdbc'') = None \<or>
         (\<exists>body. unreachable_repo (metadata_url ''snowflake-jdbc'') = Some body \<and> grep ''latest'' body = [])"
    by (simp add: unreachable_repo_def)
  have e: "\<not> exists_file (dir stale_only) (DRIVER_of ''snowflake-jdbc'' [])"
    by (simp add: stale_only_def exists_file_def DRIVER_of_def)
  have g: "rm_glob ''snowflake-jdbc'' (dir stale_only) = []"
    by (simp add: stale_only_def rm_glob_def)
  show ?thesis
    using metadata_failure_empty_version[where p = "''snowflake-jdbc''" and s = stale_only
        and w = unreachable_repo, OF p m f] e g
    by (simp add: unreachable_repo_def stale_only_def)
qed

text \<open>
  Claim C2 as stated fails: the metadata fetch fails, and the pass deletes the older
  driver and requests a jar for the empty version.
\<close>

theorem failed_fetch_counterexample:
  "unreachable_repo (metadata_url ''snowflake-jdbc'') = None \<and>
   dir stale_only = [(''snowflake-jdbc-3.5.0.jar'', ''jdbc 3.5.0 jar'')] \<and>
   dir (provision_product unreachable_repo ''snowflake-jdbc'' stale_only) = [] \<and>
   requests (provision_product unreachable_repo ''snowflake-jdbc'' stale_only) =
     [metadata_url ''snowflake-jdbc'',
      ''https://repo1.maven.org/maven2/net/snowflake/snowflake-jdbc//snowflake-jdbc-.jar'']"
  by code_simp


lemma exists_file_names: "exists_file d n \<longleftrightarrow> n \<in> file_names d"
  by (simp add: exists_file_def file_names_def)

lemma PRODUCTS_disjoint:
  "p \<in> set PRODUCTS \<Longrightarrow> q \<in> set PRODUCTS \<Longrightarrow> p \<noteq> q \<Longrightarrow> prefix p n \<Longrightarrow> \<not> prefix q n"
  by (auto simp: PRODUCTS_def prefix_def)

lemma file_names_after_pass:
  assumes "p \<in> set PRODUCTS"
    and "\<not> exists_file (dir s) ''maven-metadata.xml''"
    and "CHR ''/'' \<notin> set (latest_version w p)"
    and "exists_file (dir s) (DRIVER_of p (latest_version w p)) \<or>
         w (artifact_url p (latest_version w p)) \<noteq> None"
  shows "file_names (dir (provision_product w p s)) =
           (if exists_file (dir s) (DRIVER_of p (latest_version w p)) then file_names (dir s)
            else {n \<in> file_names (dir s). \<not> prefix p n} \<union> {DRIVER_of p (latest_version w p)})"
proof (cases "exists_file (dir s) (DRIVER_of p (latest_version w p))")
  case True
  then show ?thesis
    using provision_product_present[of s p w] assms(2) by simp
next
  case False
  then obtain jar where "w (artifact_url p (latest_version w p)) = Some jar"
    using assms(4) by auto
  then have "dir (provision_product w p s) =
      rm_glob p (dir s) @ [(DRIVER_of p (latest_version w p), jar)]"
    using provision_product_absent[of s p w] PRODUCTS_names[OF assms(1)] assms(2,3) False
    by simp
  then show ?thesis
    using False file_names_rm_glob[of p "dir s"] by (auto simp: file_names_def)
qed

text \<open>
  Claim C4, as the code has it.  Let the cell start in a directory without a leftover
  \<open>maven-metadata.xml\<close>, and let every product have its metadata fetched, a published
  version without \<open>/\<close>, and its latest artifact either in the directory or served by
  the repository.  Then after the cell the latest artifact of every product is in the
  directory.  For a product whose latest artifact was missing it is the only file whose
  name begins with the product name: the stale ones were deleted and the new one was
  downloaded.  For a product whose latest artifact was there, the files of that product
  are the same as before, stale ones included.
\<close>

theorem provisioning_installs_latest:
  assumes m: "\<not> exists_file (enter_directory found) ''maven-metadata.xml''"
    and a: "\<forall>p\<in>set PRODUCTS.
              w (metadata_url p) \<noteq> None \<and> CHR ''/'' \<notin> set (latest_version w p) \<and>
              (exists_file (enter_directory found) (DRIVER_of p (latest_version w p)) \<or>
               w (artifact_url p (latest_version w p)) \<noteq> None)"
  shows "\<forall>p\<in>set PRODUCTS.
           exists_file (dir (provisioning w found)) (DRIVER_of p (latest_version w p)) \<and>
           (if exists_file (enter_directory found) (DRIVER_of p (latest_version w p))
            then {n \<in> file_names (dir (provisioning w found)). prefix p n} =
                 {n \<in> file_names (enter_directory found). prefix p n}
            else {n \<in> file_names (dir (provisioning w found)). prefix p n} =
                 {DRIVER_of p (latest_version w p)})"
proof -
  define j where "j = ''snowflake-jdbc''"
  define k where "k = ''spark-snowflake_2.11''"
  define d where "d = enter_directory found"
  define s0 where "s0 = \<lparr>dir = d, requests = []\<rparr>"
  define s1 where "s1 = provision_product w j s0"
  define s2 where "s2 = provision_product w k s1"
  define Dj where "Dj = DRIVER_of j (latest_version w j)"
  define Dk where "Dk = DRIVER_of k (latest_version w k)"
  have P: "PRODUCTS = [j, k]" "j \<in> set PRODUCTS" "k \<in> set PRODUCTS"
    by (simp_all add: PRODUCTS_def j_def k_def)
  have jk: "\<And>n. prefix j n \<Longrightarrow> \<not> prefix k n" "\<And>n. prefix k n \<Longrightarrow> \<not> prefix j n"
    by (auto simp: j_def k_def prefix_def)
  have pj: "prefix j Dj" and pk: "prefix k Dk"
    by (simp_all add: Dj_def Dk_def prefix_DRIVER)
  have run: "provisioning w found = s2"
    by (simp add: provisioning_def P(1) s2_def s1_def s0_def d_def)
  have aj: "CHR ''/'' \<notin> set (latest_version w j)"
      "exists_file d Dj \<or> w (artifact_url j (latest_version w j)) \<noteq> None"
    and ak: "CHR ''/'' \<notin> set (latest_version w k)"
      "exists_file d Dk \<or> w (artifact_url k (latest_version w k)) \<noteq> None"
    using a by (simp_all add: P(1) d_def Dj_def Dk_def)
  have n1: "file_names (dir s1) =
      (if exists_file d Dj then file_names d else {n \<in> file_names d. \<not> prefix j n} \<union> {Dj})"
    unfolding s1_def Dj_def
    using file_names_after_pass[of j s0 w] P(2) m aj by (simp add: s0_def d_def Dj_def)
  have m1: "\<not> exists_file (dir s1) ''maven-metadata.xml''"
    unfolding s1_def by (rule provision_product_no_metadata_left)
  have k1: "exists_file (dir s1) Dk \<longleftrightarrow> exists_file d Dk"
    using pk jk pj by (auto simp: exists_file_names n1)
  have n2: "file_names (dir s2) =
      (if exists_file d Dk then file_names (dir s1)
       else {n \<in> file_names (dir s1). \<not> prefix k n} \<union> {Dk})"
    unfolding s2_def Dk_def
    using file_names_after_pass[of k s1 w] P(3) m1 ak k1 by (simp add: Dk_def)
  have cj: "exists_file (dir s2) Dj \<and>
      (if exists_file d Dj
       then {n \<in> file_names (dir s2). prefix j n} = {n \<in> file_names d. prefix j n}
       else {n \<in> file_names (dir s2). prefix j n} = {Dj})"
    using pj pk jk by (auto simp: exists_file_names n1 n2)
  have ck: "exists_file (dir s2) Dk \<and>
      (if exists_file d Dk
       then {n \<in> file_names (dir s2). prefix k n} = {n \<in> file_names d. prefix k n}
       else {n \<in> file_names (dir s2). prefix k n} = {Dk})"
    using pj pk jk by (auto simp: exists_file_names n1 n2)
  show ?thesis
    using cj ck by (simp add: P(1) run Dj_def Dk_def d_def)
qed


text \<open>
  Claim C4, as the code has it, on the example repository and a directory with an older
  JDBC driver.
\<close>

theorem provisioning_installs_latest_witness:
  "{n \<in> file_names (dir (provisioning maven_repo (Some (dir stale_only)))).
      prefix ''snowflake-jdbc'' n} = {''snowflake-jdbc-3.6.0.jar''} \<and>
   {n \<in> file_names (dir (provisioning maven_repo (Some (dir stale_only)))).
      prefix ''spark-snowflake_2.11'' n} = {''spark-snowflake_2.11-2.4.5.jar''}"
proof -
  have m: "\<not> exists_file (enter_directory (Some (dir stale_only))) ''maven-metadata.xml''"
    by code_simp
  have a: "\<forall>p\<in>set PRODUCTS.
              maven_repo (metadata_url p) \<noteq> None \<and> CHR ''/'' \<notin> set (latest_version maven_repo p) \<and>
              (exists_file (enter_directory (Some (dir stale_only))) (DRIVER_of p (latest_version maven_repo p)) \<or>
               maven_repo (artifact_url p (latest_version maven_repo p)) \<noteq> None)"
    by code_simp
  have j: "DRIVER_of ''snowflake-jdbc'' (latest_version maven_repo ''snowflake-jdbc'') =
             ''snowflake-jdbc-3.6.0.jar''"
    by code_simp
  have k: "DRIVER_of ''spark-snowflake_2.11'' (latest_version maven_repo ''spark-snowflake_2.11'') =
             ''spark-snowflake_2.11-2.4.5.jar''"
    by code_simp
  have ej: "\<not> exists_file (enter_directory (Some (dir stale_only))) ''snowflake-jdbc-3.6.0.jar''"
    by code_simp
  have ek: "\<not> exists_file (enter_directory (Some (dir stale_only))) ''spark-snowflake_2.11-2.4.5.jar''"
    by code_simp
  show ?thesis
    using provisioning_installs_latest[OF m a] ej ek by (simp add: PRODUCTS_def j k)
qed

text \<open>
  Claim C4 as stated fails: with an older JDBC driver beside the latest one the cell
  deletes nothing, and two JDBC artifacts are in the directory after it.
\<close>

theorem stale_beside_latest_counterexample:
  "latest_version maven_repo ''snowflake-jdbc'' = ''3.6.0'' \<and>
   filter (prefix ''snowflake-jdbc'') (map fst (dir (provisioning maven_repo (Some stale_and_latest)))) =
     [''snowflake-jdbc-3.5.0.jar'', ''snowflake-jdbc-3.6.0.jar'']"
  by code_simp

end
